theory Spec2Isabelle
  imports Main
begin

section \<open>Python string operations used by ci/get_hdf5.py\<close>

text \<open>
  The script manipulates version strings, URL templates and paths with a handful of
  \<^verbatim>\<open>str\<close> methods. Each is written out here as a function on \<^typ>\<open>string\<close>.
\<close>

definition startswith :: "string \<Rightarrow> string \<Rightarrow> bool" where
  \<comment> \<open>\<^verbatim>\<open>s.startswith(p)\<close>\<close>
  "startswith s p = (take (length p) s = p)"

definition endswith :: "string \<Rightarrow> string \<Rightarrow> bool" where
  \<comment> \<open>\<^verbatim>\<open>s.endswith(p)\<close>\<close>
  "endswith s p = (length p \<le> length s \<and> drop (length s - length p) s = p)"

fun split_sep :: "char \<Rightarrow> string \<Rightarrow> string list" where
  \<comment> \<open>\<^verbatim>\<open>s.split(sep)\<close> for a one-character separator: every occurrence of the
      separator ends a field, and the empty string gives one empty field.\<close>
  "split_sep sep [] = [[]]"
| "split_sep sep (c # cs) =
     (if c = sep then [] # split_sep sep cs
      else (case split_sep sep cs of
              [] \<Rightarrow> [[c]]
            | w # ws \<Rightarrow> (c # w) # ws))"

function format_py :: "(string \<times> string) list \<Rightarrow> string \<Rightarrow> string" where
  \<comment> \<open>\<^verbatim>\<open>template.format(k1=v1, ...)\<close> for a template whose replacement fields are
      named fields \<^verbatim>\<open>{k}\<close> of the given keywords: each field is replaced by its
      value, and a value is not scanned again.\<close>
  "format_py kws [] = []"
| "format_py kws (c # cs) =
     (if c = CHR ''{'' then
        (case find (\<lambda>kv. startswith cs (fst kv @ ''}'')) kws of
           Some kv \<Rightarrow> snd kv @ format_py kws (drop (length (fst kv) + 1) cs)
         | None \<Rightarrow> c # format_py kws cs)
      else c # format_py kws cs)"
  by pat_completeness auto
termination
  by (relation "measure (\<lambda>(kws, s). length s)") auto

definition py_str :: "string option \<Rightarrow> string" where
  \<comment> \<open>\<^verbatim>\<open>str(x)\<close> for a value that is a string or \<^verbatim>\<open>None\<close>.\<close>
  "py_str x = (case x of Some s \<Rightarrow> s | None \<Rightarrow> ''None'')"

fun join_with :: "string \<Rightarrow> string list \<Rightarrow> string" where
  \<comment> \<open>\<^verbatim>\<open>sep.join(xs)\<close>\<close>
  "join_with sep [] = []"
| "join_with sep [x] = x"
| "join_with sep (x # y # ys) = x @ sep @ join_with sep (y # ys)"

section \<open>Module constants\<close>

definition is_win :: "string \<Rightarrow> bool" where
  \<comment> \<open>The test \<^verbatim>\<open>platform.startswith('win')\<close> on \<^verbatim>\<open>sys.platform\<close>.\<close>
  "is_win platform = startswith platform ''win''"

definition HDF5_18_URL :: string where
  "HDF5_18_URL = ''https://www.hdfgroup.org/ftp/HDF5/releases/hdf5-1.8/hdf5-{version}/src/''"

definition HDF5_110_URL :: string where
  "HDF5_110_URL = ''https://www.hdfgroup.org/ftp/HDF5/releases/hdf5-1.10/hdf5-{version}/src/''"

definition HDF5_18_FILE :: "string \<Rightarrow> string" where
  "HDF5_18_FILE platform =
     (if is_win platform then HDF5_18_URL @ ''hdf5-{version}.zip''
      else HDF5_18_URL @ ''hdf5-{version}.gzip'')"

definition HDF5_110_FILE :: "string \<Rightarrow> string" where
  "HDF5_110_FILE platform =
     (if is_win platform then HDF5_110_URL @ ''hdf5-{version}.zip''
      else HDF5_110_URL @ ''hdf5-{version}.tar.gz'')"

definition CMAKE_CONFIGURE_CMD :: "string list" where
  "CMAKE_CONFIGURE_CMD =
     [''cmake'', ''-DBUILD_SHARED_LIBS:BOOL=ON'', ''-DCMAKE_BUILD_TYPE:STRING=RELEASE'',
      ''-DHDF5_BUILD_CPP_LIB=OFF'', ''-DHDF5_BUILD_HL_LIB=ON'',
      ''-DHDF5_BUILD_TOOLS:BOOL=ON'']"

definition CMAKE_BUILD_CMD :: "string list" where
  "CMAKE_BUILD_CMD = [''cmake'', ''--build'']"

definition CMAKE_INSTALL_ARG :: "string list" where
  "CMAKE_INSTALL_ARG = [''--target'', ''install'', ''--config'', ''Release'']"

definition CMAKE_INSTALL_PATH_ARG :: string where
  "CMAKE_INSTALL_PATH_ARG = ''-DCMAKE_INSTALL_PREFIX={install_path}''"

definition CMAKE_HDF5_LIBRARY_PREFIX :: "string list" where
  "CMAKE_HDF5_LIBRARY_PREFIX = [''-DHDF5_EXTERNAL_LIB_PREFIX=h5py_'']"

definition REL_PATH_TO_UNPACKED_DIR :: string where
  "REL_PATH_TO_UNPACKED_DIR = ''hdf5-{version}''"

definition DEFAULT_VERSION :: string where
  "DEFAULT_VERSION = ''1.8.17''"

definition VSVERSION_TO_GENERATOR :: "string \<rightharpoonup> string" where
  "VSVERSION_TO_GENERATOR =
     [''9'' \<mapsto> ''Visual Studio 9 2008'',
      ''10'' \<mapsto> ''Visual Studio 10 2010'',
      ''14'' \<mapsto> ''Visual Studio 14 2015'',
      ''9-64'' \<mapsto> ''Visual Studio 9 2008 Win64'',
      ''10-64'' \<mapsto> ''Visual Studio 10 2010 Win64'',
      ''14-64'' \<mapsto> ''Visual Studio 14 2015 Win64'']"

section \<open>Pure helpers of the script\<close>

definition download_url :: "string \<Rightarrow> string \<Rightarrow> string" where
  \<comment> \<open>The URL selection at the head of \<^verbatim>\<open>download_hdf5\<close>.\<close>
  "download_url platform version =
     (if take 2 (split_sep CHR ''.'' version) = [''1'', ''10'']
      then format_py [(''version'', version)] (HDF5_110_FILE platform)
      else format_py [(''version'', version)] (HDF5_18_FILE platform))"

definition get_cmake_install_path :: "string option \<Rightarrow> string" where
  "get_cmake_install_path install_path =
     (case install_path of
        Some p \<Rightarrow> format_py [(''install_path'', p)] CMAKE_INSTALL_PATH_ARG
      | None \<Rightarrow> '' '')"

section \<open>The host: everything the script reads from outside\<close>

text \<open>
  The script is orchestration: its behaviour is fixed once the answers of the outside
  world are fixed. A \<open>host\<close> collects those answers: the platform string, the
  environment, which paths exist, the status code the HTTP server answers with, the
  return code of each subprocess, the names of the temporary directories, and the
  results of \<^verbatim>\<open>glob\<close> and \<^verbatim>\<open>os.walk\<close>. On a Windows host \<^verbatim>\<open>os.path.join\<close> is
  \<^verbatim>\<open>ntpath.join\<close>, which is taken as a parameter of the host; on every other host
  it is \<^verbatim>\<open>posixpath.join\<close>, written out below. Failures of the operating system
  itself (a full disk, a broken archive, a dropped connection) are outside the model.
\<close>

record host =
  platform :: string
  environ :: "string \<Rightarrow> string option"
  path_exists :: "string \<Rightarrow> bool"
  http_status :: "string \<Rightarrow> nat"
  returncode :: "string list \<Rightarrow> int"
  proc_stdout :: "string list \<Rightarrow> string"
  tmpdir_name :: "nat \<Rightarrow> string"
  glob_result :: "string \<Rightarrow> string list"
  walk_result :: "string \<Rightarrow> (string \<times> string list \<times> string list) list"
  ntpath_join :: "string \<Rightarrow> string list \<Rightarrow> string"

datatype error =
    TypeError
  | KeyError
  | RuntimeError
  | CalledProcessError int
  | SystemExit nat

datatype child =
    Direct "string list"
  | PosixShell string "string list"
  | WindowsShell "string list"

text \<open>
  What a call of \<^verbatim>\<open>subprocess.run\<close> on an argument list makes the operating system
  execute. Without a shell it is the list itself: the first item is the program and the
  others are its arguments. With \<^verbatim>\<open>shell=True\<close> on POSIX the interpreter executes
  \<^verbatim>\<open>/bin/sh -c\<close> followed by the list, so the shell runs the first item alone as its
  command string and takes the other items as its own positional parameters
  \<^verbatim>\<open>$0, $1, ...\<close>: they are not arguments of the command. With \<^verbatim>\<open>shell=True\<close> on
  Windows the whole list is joined into one command line for the command interpreter.
\<close>

definition popen :: "string \<Rightarrow> string list \<Rightarrow> bool \<Rightarrow> child" where
  "popen plat argv shell =
     (if \<not> shell then Direct argv
      else if is_win plat then WindowsShell argv
      else (case argv of
              [] \<Rightarrow> Direct [''/bin/sh'', ''-c'']
            | command # parameters \<Rightarrow> PosixShell command parameters))"

datatype event =
    Makedirs string
  | RunString string
  | Run "string list" bool string
  | Exec child string
  | PrintErr string
  | PrintOut string
  | HttpGet string
  | CopyBody
  | Seek0
  | TmpFileOpen
  | TmpFileClose
  | TmpDirCreate string
  | TmpDirRemove string
  | ExtractZip string
  | ExtractTarGz string
  | Chdir string
  | CopyFile string string
  | Walk string

text \<open>
  \<open>Run argv shell dir\<close> is a call of \<^verbatim>\<open>subprocess.run\<close> on an argument list, with
  the value of its \<^verbatim>\<open>shell\<close> flag and the working directory the child starts in;
  the \<open>Exec\<close> event that follows it is what the child executes there.
  \<open>RunString\<close> is the one call of \<^verbatim>\<open>run\<close> on a command string.
\<close>

record proc =
  cwd :: string
  tmp_count :: nat
  trace :: "event list"

type_synonym 'a prog = "proc \<Rightarrow> (error + 'a) \<times> proc"

definition ret :: "'a \<Rightarrow> 'a prog" where
  "ret x = (\<lambda>s. (Inr x, s))"

definition raise :: "error \<Rightarrow> 'a prog" where
  "raise e = (\<lambda>s. (Inl e, s))"

definition seq :: "'a prog \<Rightarrow> ('a \<Rightarrow> 'b prog) \<Rightarrow> 'b prog" where
  \<comment> \<open>Sequencing: an exception of the first statement skips the rest.\<close>
  "seq m f = (\<lambda>s. case m s of (Inl e, s') \<Rightarrow> (Inl e, s') | (Inr x, s') \<Rightarrow> f x s')"

definition lift :: "error + 'a \<Rightarrow> 'a prog" where
  "lift r = (\<lambda>s. (r, s))"

definition emit :: "event \<Rightarrow> unit prog" where
  "emit e = (\<lambda>s. (Inr (), s\<lparr>trace := trace s @ [e]\<rparr>))"

definition on_exit :: "'a prog \<Rightarrow> unit prog \<Rightarrow> 'a prog" where
  \<comment> \<open>The exit of a \<^verbatim>\<open>with\<close> block: the cleanup runs on every way out of the body
      and the body's outcome is kept.\<close>
  "on_exit body cleanup = (\<lambda>s. case body s of (r, s') \<Rightarrow> (r, snd (cleanup s')))"

definition getcwd :: "string prog" where
  "getcwd = (\<lambda>s. (Inr (cwd s), s))"

definition chdir :: "string \<Rightarrow> unit prog" where
  "chdir d = (\<lambda>s. (Inr (), s\<lparr>cwd := d, trace := trace s @ [Chdir d]\<rparr>))"

definition print_err :: "string \<Rightarrow> unit prog" where
  "print_err msg = emit (PrintErr msg)"

definition print_out :: "string \<Rightarrow> unit prog" where
  "print_out msg = emit (PrintOut msg)"

definition TemporaryDirectory :: "host \<Rightarrow> (string \<Rightarrow> 'a prog) \<Rightarrow> 'a prog" where
  \<comment> \<open>\<^verbatim>\<open>with TemporaryDirectory() as d: body\<close>\<close>
  "TemporaryDirectory h body =
     (\<lambda>s. let d = tmpdir_name h (tmp_count s)
           in on_exit (body d) (emit (TmpDirRemove d))
                (s\<lparr>tmp_count := Suc (tmp_count s), trace := trace s @ [TmpDirCreate d]\<rparr>))"

definition TemporaryFile :: "'a prog \<Rightarrow> 'a prog" where
  \<comment> \<open>\<^verbatim>\<open>with TemporaryFile() as f: body\<close>\<close>
  "TemporaryFile body = seq (emit TmpFileOpen) (\<lambda>_. on_exit body (emit TmpFileClose))"

definition run :: "host \<Rightarrow> string list \<Rightarrow> bool \<Rightarrow> string option \<Rightarrow> int prog" where
  \<comment> \<open>\<^verbatim>\<open>subprocess.run(argv, shell=..., cwd=...)\<close>: the child starts in the given
      directory, or in the process's working directory; the result is its return code.\<close>
  "run h argv shell dir =
     (\<lambda>s. let d = (case dir of Some d \<Rightarrow> d | None \<Rightarrow> cwd s)
           in (Inr (returncode h argv),
               s\<lparr>trace := trace s @ [Run argv shell d, Exec (popen (platform h) argv shell) d]\<rparr>))"

definition check_returncode :: "int \<Rightarrow> unit prog" where
  \<comment> \<open>\<^verbatim>\<open>CompletedProcess.check_returncode\<close> raises on every nonzero return code.\<close>
  "check_returncode rc = (if rc \<noteq> 0 then raise (CalledProcessError rc) else ret ())"

fun for_each :: "'a list \<Rightarrow> ('a \<Rightarrow> unit prog) \<Rightarrow> unit prog" where
  \<comment> \<open>A \<^verbatim>\<open>for\<close> loop over a sequence; an exception in the body leaves the loop.\<close>
  "for_each [] body = ret ()"
| "for_each (x # xs) body = seq (body x) (\<lambda>_. for_each xs body)"

section \<open>Paths\<close>

definition posixpath_join :: "string \<Rightarrow> string list \<Rightarrow> string" where
  \<comment> \<open>\<^verbatim>\<open>posixpath.join(a, *p)\<close>: a component that starts with a slash replaces what
      came before it; otherwise it is appended, after a slash unless the path so far is
      empty or already ends with one.\<close>
  "posixpath_join a p =
     foldl (\<lambda>path b.
              if startswith b ''/'' then b
              else if path = [] \<or> endswith path ''/'' then path @ b
              else path @ ''/'' @ b) a p"

definition path_join :: "host \<Rightarrow> string \<Rightarrow> string list \<Rightarrow> string" where
  "path_join h a p = (if is_win (platform h) then ntpath_join h a p else posixpath_join a p)"

definition pjoin :: "host \<Rightarrow> string option \<Rightarrow> string list \<Rightarrow> error + string" where
  \<comment> \<open>\<^verbatim>\<open>os.path.join\<close> on a first argument that may be \<^verbatim>\<open>None\<close>: it accepts only
      path-like values and raises \<^verbatim>\<open>TypeError\<close> on \<^verbatim>\<open>None\<close>.\<close>
  "pjoin h a p = (case a of None \<Rightarrow> Inl TypeError | Some s \<Rightarrow> Inr (path_join h s p))"

definition get_unpacked_path :: "host \<Rightarrow> string \<Rightarrow> string \<Rightarrow> string" where
  "get_unpacked_path h version extract_point =
     path_join h extract_point [format_py [(''version'', version)] REL_PATH_TO_UNPACKED_DIR]"

definition hdf5_cached :: "host \<Rightarrow> string option \<Rightarrow> error + bool" where
  "hdf5_cached h install_path =
     (case pjoin h install_path [''lib'', ''hdf5.dll''] of
        Inl e \<Rightarrow> Inl e
      | Inr p \<Rightarrow> if path_exists h p then Inr True else Inr False)"

section \<open>Build commands\<close>

text \<open>
  A configure command is a list whose elements are strings or \<^verbatim>\<open>None\<close>: the
  autotools command holds the install path as it came from the environment.
\<close>

type_synonym cmds = "string option list \<times> string list list"

definition get_autotools_cmds :: "string option \<Rightarrow> bool \<Rightarrow> cmds" where
  "get_autotools_cmds install_path with_mpi =
     (let parallel_args = (if with_mpi then [Some ''--enable-parallel''] else []);
          cfg_cmd = [Some ''./configure'', Some ''--prefix'', install_path] @ parallel_args;
          build_cmds = [[''make''], [''make'', ''install'']]
      in (cfg_cmd, build_cmds))"

definition get_cmake_cmds ::
  "host \<Rightarrow> string \<Rightarrow> string option \<Rightarrow> string option \<Rightarrow> bool \<Rightarrow> string \<Rightarrow> cmds" where
  "get_cmake_cmds h version install_path cmake_generator use_prefix hdf5_extract_path =
     (let generator_args = (case cmake_generator of Some g \<Rightarrow> [''-G'', g] | None \<Rightarrow> []);
          prefix_args = (if use_prefix then CMAKE_HDF5_LIBRARY_PREFIX else []);
          cfg_cmd = CMAKE_CONFIGURE_CMD @
                    [get_cmake_install_path install_path,
                     get_unpacked_path h version hdf5_extract_path] @
                    generator_args @ prefix_args;
          build_cmd = CMAKE_BUILD_CMD @ [''.''] @ CMAKE_INSTALL_ARG
      in (map Some cfg_cmd, [build_cmd]))"

datatype 'a arg = Given 'a | Missing

definition call_get_cmake_cmds ::
  "host \<Rightarrow> string arg \<Rightarrow> string option arg \<Rightarrow> string option arg \<Rightarrow> bool arg \<Rightarrow> string arg
     \<Rightarrow> error + cmds" where
  \<comment> \<open>A call of \<^verbatim>\<open>get_cmake_cmds\<close>. All five parameters are required, so a call
      that leaves one without an argument raises \<^verbatim>\<open>TypeError\<close> before the body runs.\<close>
  "call_get_cmake_cmds h version install_path cmake_generator use_prefix hdf5_extract_path =
     (case (version, install_path, cmake_generator, use_prefix, hdf5_extract_path) of
        (Given v, Given i, Given g, Given u, Given x) \<Rightarrow> Inr (get_cmake_cmds h v i g u x)
      | _ \<Rightarrow> Inl TypeError)"

fun all_str :: "string option list \<Rightarrow> error + string list" where
  \<comment> \<open>What \<^verbatim>\<open>' '.join(xs)\<close> demands of its argument: every item is a string;
      \<^verbatim>\<open>None\<close> raises \<^verbatim>\<open>TypeError\<close>.\<close>
  "all_str [] = Inr []"
| "all_str (None # xs) = Inl TypeError"
| "all_str (Some x # xs) = (case all_str xs of Inl e \<Rightarrow> Inl e | Inr ys \<Rightarrow> Inr (x # ys))"

section \<open>Download\<close>

definition raise_for_status :: "nat \<Rightarrow> bool" where
  \<comment> \<open>\<^verbatim>\<open>Response.raise_for_status\<close> of the requests library raises \<^verbatim>\<open>HTTPError\<close>
      for the client-error and server-error status codes, 400 to 599, and returns
      normally for every other code.\<close>
  "raise_for_status status = (400 \<le> status \<and> status < 600)"

definition download_hdf5 :: "host \<Rightarrow> string \<Rightarrow> unit prog" where
  "download_hdf5 h version =
     (let file = download_url (platform h) version in
      seq (print_err (''Downloading '' @ file)) (\<lambda>_.
      seq (emit (HttpGet file)) (\<lambda>_.
      if raise_for_status (http_status h file) then
        seq (print_err (format_py [(''version'', version)]
                          ''Failed to download hdf5 version {version}, exiting'')) (\<lambda>_.
        raise (SystemExit 1))
      else emit CopyBody)))"

section \<open>Build\<close>

text \<open>
  The build step, statement by statement. \<^verbatim>\<open>Path(...)\<close> around the unpacked path
  names the same directory and is left out. The configure command is run without a
  shell and with its output captured, which the script prints before it checks the
  return code; each build command is run with \<^verbatim>\<open>shell=True\<close> and without capture, so
  the \<^verbatim>\<open>print(p.stdout)\<close> after it prints \<^verbatim>\<open>None\<close>.
\<close>

definition build_hdf5 ::
  "host \<Rightarrow> string \<Rightarrow> string option \<Rightarrow> string option \<Rightarrow> bool \<Rightarrow> bool \<Rightarrow> unit prog" where
  "build_hdf5 h version install_path cmake_generator use_prefix with_mpi =
     (let build_system = (if is_win (platform h) then ''cmake'' else ''autotools'') in
      seq (TemporaryDirectory h (\<lambda>hdf5_extract_path.
        seq (if is_win (platform h) then emit (ExtractZip hdf5_extract_path)
             else emit (ExtractTarGz hdf5_extract_path)) (\<lambda>_.
        seq (if build_system = ''cmake'' then
               lift (call_get_cmake_cmds h (Given version) (Given install_path)
                       (Given cmake_generator) (Given use_prefix) Missing)
             else if build_system = ''autotools'' then
               ret (get_autotools_cmds install_path with_mpi)
             else raise RuntimeError) (\<lambda>(cfg_cmd, build_cmds).
        seq getcwd (\<lambda>old_dir.
        TemporaryDirectory h (\<lambda>cmake_work_dir.
          seq (if build_system = ''cmake'' then chdir cmake_work_dir
               else if build_system = ''autotools'' then
                 (let cwd = get_unpacked_path h version hdf5_extract_path in
                  seq (chdir cwd) (\<lambda>_.
                  seq (run h [''chmod'', ''+x'', ''autogen.sh''] False None) (\<lambda>p.
                  seq (check_returncode p) (\<lambda>_.
                  seq (run h [''./autogen.sh''] False (Some cwd)) (\<lambda>p.
                  check_returncode p)))))
               else raise RuntimeError) (\<lambda>_.
          seq (print_err (format_py [(''version'', version)]
                            ''Configuring HDF5 version {version}...'')) (\<lambda>_.
          seq (lift (all_str cfg_cmd)) (\<lambda>cfg_argv.
          seq (print_err (join_with '' '' cfg_argv)) (\<lambda>_.
          seq (run h cfg_argv False None) (\<lambda>p.
          seq (print_out (proc_stdout h cfg_argv)) (\<lambda>_.
          seq (check_returncode p) (\<lambda>_.
          seq (print_err (format_py [(''version'', version)]
                            ''Building HDF5 version {version}...'')) (\<lambda>_.
          seq (for_each build_cmds (\<lambda>cmd.
                 seq (print_err (join_with '' '' cmd)) (\<lambda>_.
                 seq (run h cmd True None) (\<lambda>p.
                 seq (check_returncode p) (\<lambda>_.
                 print_out ''None''))))) (\<lambda>_.
          seq (print_err (format_py [(''version'', version),
                                     (''install_path'', py_str install_path)]
                            ''Installed HDF5 version {version} to {install_path}'')) (\<lambda>_.
          chdir old_dir)))))))))))))))) (\<lambda>_.
      if is_win (platform h) then
        seq (print_err ''Copying HDF5 dlls'') (\<lambda>_.
        seq (lift (pjoin h install_path [''bin/*.dll''])) (\<lambda>pattern.
        for_each (glob_result h pattern) (\<lambda>f.
          seq (lift (pjoin h install_path [''lib''])) (\<lambda>dst.
          emit (CopyFile f dst)))))
      else ret ()))"

section \<open>Entry point\<close>

definition setup_x64_bat :: string where
  "setup_x64_bat =
     ''ci'' @ [char_of (92::nat)] @ ''appveyor'' @ [char_of (92::nat)] @ ''vs2008_patch''
       @ [char_of (92::nat)] @ ''setup_x64.bat''"

definition main :: "host \<Rightarrow> unit prog" where
  "main h =
     (let install_path = environ h ''HDF5_DIR'';
          version = (case environ h ''HDF5_VERSION'' of Some v \<Rightarrow> v | None \<Rightarrow> DEFAULT_VERSION);
          vs_version = environ h ''HDF5_VSVERSION'';
          use_prefix = (if environ h ''H5PY_USE_PREFIX'' \<noteq> None then True else False);
          with_mpi = (environ h ''HDF5_MPI'' = Some ''ON'')
      in
      seq (case install_path of
             Some p \<Rightarrow> if \<not> path_exists h p then emit (Makedirs p) else ret ()
           | None \<Rightarrow> ret ()) (\<lambda>_.
      seq (case vs_version of
             Some vs \<Rightarrow>
               (case VSVERSION_TO_GENERATOR vs of
                  None \<Rightarrow> raise KeyError
                | Some g \<Rightarrow>
                    seq (if vs = ''9-64'' then emit (RunString setup_x64_bat) else ret ()) (\<lambda>_.
                    ret (Some g)))
           | None \<Rightarrow> ret None) (\<lambda>cmake_generator.
      seq (lift (hdf5_cached h install_path)) (\<lambda>cached.
      seq (if \<not> cached then
             TemporaryFile
               (seq (download_hdf5 h version) (\<lambda>_.
                seq (emit Seek0) (\<lambda>_.
                build_hdf5 h version install_path cmake_generator use_prefix with_mpi)))
           else print_err ''using cached hdf5'') (\<lambda>_.
      case install_path of
        Some p \<Rightarrow>
          seq (print_err ''hdf5 files: '') (\<lambda>_.
          seq (emit (Walk p)) (\<lambda>_.
          for_each (walk_result h p) (\<lambda>(dirpath, dirnames, filenames).
            for_each filenames (\<lambda>file.
              print_out ('' * '' @ path_join h dirpath [file])))))
      | None \<Rightarrow> ret ())))))"

definition start :: "string \<Rightarrow> proc" where
  \<comment> \<open>The process as the interpreter starts it in a given working directory.\<close>
  "start d = \<lparr>cwd = d, tmp_count = 0, trace = []\<rparr>"

definition exit_status :: "error + unit \<Rightarrow> nat" where
  \<comment> \<open>The interpreter's exit status: 0 when \<^verbatim>\<open>main\<close> returns, the argument of
      \<^verbatim>\<open>exit\<close>, and 1 for an exception nobody caught.\<close>
  "exit_status r = (case r of Inr _ \<Rightarrow> 0 | Inl (SystemExit n) \<Rightarrow> n | Inl _ \<Rightarrow> 1)"

section \<open>Vocabulary for the statements\<close>

text \<open>
  The events a run adds to the trace, two classes of events, and names for the pieces of
  a run of \<^verbatim>\<open>main\<close>: the version it resolves, whether the generator lookup succeeds,
  what it does before the cache check, the start of the download and the file listing.
  \<open>autotools_run\<close> writes out what the build step does on a host that is not Windows,
  by the first subprocess that fails: its outcome, the working directory it leaves, and
  its events. Lemma \<open>build_autotools_outcome\<close> proves that \<^verbatim>\<open>build_hdf5\<close> computes
  exactly this.
\<close>

fun is_run :: "event \<Rightarrow> bool" where
  "is_run (Run argv shell dir) = True"
| "is_run _ = False"

fun is_exec :: "event \<Rightarrow> bool" where
  "is_exec (Exec c dir) = True"
| "is_exec _ = False"

fun is_walk :: "event \<Rightarrow> bool" where
  "is_walk (Walk p) = True"
| "is_walk _ = False"

definition events :: "proc \<Rightarrow> proc \<Rightarrow> event list" where
  "events s s' = drop (length (trace s)) (trace s')"

definition autotools_run ::
  "host \<Rightarrow> string \<Rightarrow> string \<Rightarrow> bool \<Rightarrow> string \<Rightarrow> nat \<Rightarrow> (error + unit) \<times> string \<times> event list" where
  "autotools_run h v p m old n =
    (let d0 = tmpdir_name h n;
         d1 = tmpdir_name h (Suc n);
         w = get_unpacked_path h v d0;
         chmod = [''chmod'', ''+x'', ''autogen.sh''];
         cfg = [''./configure'', ''--prefix'', p] @ (if m then [''--enable-parallel''] else []);
         e0 = [TmpDirCreate d0, ExtractTarGz d0, TmpDirCreate d1, Chdir w,
               Run chmod False w, Exec (Direct chmod) w];
         e1 = e0 @ [Run [''./autogen.sh''] False w, Exec (Direct [''./autogen.sh'']) w];
         e2 = e1 @ [PrintErr (''Configuring HDF5 version '' @ v @ ''...''),
                    PrintErr (join_with '' '' cfg), Run cfg False w, Exec (Direct cfg) w,
                    PrintOut (proc_stdout h cfg)];
         e3 = e2 @ [PrintErr (''Building HDF5 version '' @ v @ ''...''),
                    PrintErr ''make'', Run [''make''] True w, Exec (PosixShell ''make'' []) w];
         e4 = e3 @ [PrintOut ''None'', PrintErr ''make install'',
                    Run [''make'', ''install''] True w,
                    Exec (PosixShell ''make'' [''install'']) w];
         e5 = e4 @ [PrintOut ''None'',
                    PrintErr (''Installed HDF5 version '' @ v @ '' to '' @ p), Chdir old];
         fin = [TmpDirRemove d1, TmpDirRemove d0]
     in if returncode h chmod \<noteq> 0
          then (Inl (CalledProcessError (returncode h chmod)), w, e0 @ fin)
        else if returncode h [''./autogen.sh''] \<noteq> 0
          then (Inl (CalledProcessError (returncode h [''./autogen.sh''])), w, e1 @ fin)
        else if returncode h cfg \<noteq> 0
          then (Inl (CalledProcessError (returncode h cfg)), w, e2 @ fin)
        else if returncode h [''make''] \<noteq> 0
          then (Inl (CalledProcessError (returncode h [''make''])), w, e3 @ fin)
        else if returncode h [''make'', ''install''] \<noteq> 0
          then (Inl (CalledProcessError (returncode h [''make'', ''install''])), w, e4 @ fin)
        else (Inr (), old, e5 @ fin))"

definition resolved_version :: "host \<Rightarrow> string" where
  "resolved_version h =
     (case environ h ''HDF5_VERSION'' of Some v \<Rightarrow> v | None \<Rightarrow> DEFAULT_VERSION)"

definition generator_known :: "host \<Rightarrow> bool" where
  "generator_known h =
     (case environ h ''HDF5_VSVERSION'' of
        None \<Rightarrow> True
      | Some vs \<Rightarrow> VSVERSION_TO_GENERATOR vs \<noteq> None)"

definition prelude_events :: "host \<Rightarrow> event list" where
  "prelude_events h =
     (case environ h ''HDF5_DIR'' of
        Some p \<Rightarrow> if path_exists h p then [] else [Makedirs p]
      | None \<Rightarrow> []) @
     (if environ h ''HDF5_VSVERSION'' = Some ''9-64'' then [RunString setup_x64_bat] else [])"

definition download_events :: "host \<Rightarrow> event list" where
  "download_events h =
     [TmpFileOpen,
      PrintErr (''Downloading '' @ download_url (platform h) (resolved_version h)),
      HttpGet (download_url (platform h) (resolved_version h))]"

definition listing :: "host \<Rightarrow> string \<Rightarrow> event list" where
  "listing h p =
     concat (map (\<lambda>(dirpath, dirnames, filenames).
                    map (\<lambda>file. PrintOut ('' * '' @ path_join h dirpath [file])) filenames)
                 (walk_result h p))"

section \<open>Example hosts\<close>

definition linux_host :: host where
  "linux_host =
     \<lparr>platform = ''linux'',
      environ = [''HDF5_DIR'' \<mapsto> ''/tmp/out'', ''HDF5_VERSION'' \<mapsto> ''1.8.17''],
      path_exists = (\<lambda>_. False),
      http_status = (\<lambda>_. 200),
      returncode = (\<lambda>_. 0),
      proc_stdout = (\<lambda>_. ''ok''),
      tmpdir_name = (\<lambda>n. if n = 0 then ''/tmp/tmpa'' else ''/tmp/tmpb''),
      glob_result = (\<lambda>_. []),
      walk_result = (\<lambda>_. [(''/tmp/out'', [], [])]),
      ntpath_join = (\<lambda>a p. a)\<rparr>"

definition windows_host :: host where
  "windows_host =
     \<lparr>platform = ''win32'',
      environ = [''HDF5_VERSION'' \<mapsto> ''1.10.2'', ''HDF5_VSVERSION'' \<mapsto> ''14-64''],
      path_exists = (\<lambda>_. False),
      http_status = (\<lambda>_. 200),
      returncode = (\<lambda>_. 0),
      proc_stdout = (\<lambda>_. ''ok''),
      tmpdir_name = (\<lambda>n. if n = 0 then ''C:/tmp/tmpa'' else ''C:/tmp/tmpb''),
      glob_result = (\<lambda>_. []),
      walk_result = (\<lambda>_. []),
      ntpath_join = (\<lambda>a p. foldl (\<lambda>path b. path @ [char_of (92::nat)] @ b) a p)\<rparr>"

definition windows_host_with_dir :: host where
  "windows_host_with_dir =
     windows_host\<lparr>environ := (environ windows_host)(''HDF5_DIR'' \<mapsto> ''C:/out'')\<rparr>"

definition linux_host_no_dir :: host where
  "linux_host_no_dir = linux_host\<lparr>environ := Map.empty\<rparr>"

definition linux_host_chmod_fails :: host where
  "linux_host_chmod_fails =
     linux_host\<lparr>returncode := (\<lambda>argv. if argv = [''chmod'', ''+x'', ''autogen.sh''] then 1 else 0)\<rparr>"

definition linux_host_make_install_fails :: host where
  "linux_host_make_install_fails =
     linux_host\<lparr>returncode := (\<lambda>argv. if argv = [''make'', ''install''] then 2 else 0)\<rparr>"

definition linux_host_404 :: host where
  "linux_host_404 = linux_host\<lparr>http_status := (\<lambda>_. 404)\<rparr>"

text \<open>
  A host whose server answers the GET with status 300 (Multiple Choices), a status that
  the HTTP client hands to the script as it is, with the archive as the body of the
  response.
\<close>

definition linux_host_300 :: host where
  "linux_host_300 = linux_host\<lparr>http_status := (\<lambda>_. 300)\<rparr>"

section \<open>Facts about the string operations\<close>

lemma split_sep_nonempty: "split_sep sep s \<noteq> []"
  by (induction s) (auto split: list.splits)

lemma split_sep_unfold:
  "split_sep sep s =
     takeWhile (\<lambda>x. x \<noteq> sep) s #
       (case dropWhile (\<lambda>x. x \<noteq> sep) s of [] \<Rightarrow> [] | _ # r \<Rightarrow> split_sep sep r)"
  by (induction s) (auto split: list.splits simp: split_sep_nonempty)

lemma first_field:
  "takeWhile (\<lambda>x. x \<noteq> sep) s = w \<Longrightarrow>
     sep \<notin> set w \<and>
     (s = w \<or> (\<exists>r. s = w @ sep # r \<and> dropWhile (\<lambda>x. x \<noteq> sep) s = sep # r))"
  by (induction s arbitrary: w) (auto split: if_splits)

lemma startswith_append: "startswith s p \<longleftrightarrow> (\<exists>t. s = p @ t)"
  unfolding startswith_def by (metis append_eq_conv_conj)

lemma endswith_append:
  "length p \<le> length q \<Longrightarrow> endswith (s @ q) p = endswith q p"
  by (simp add: endswith_def)

lemma fields_rev: "take 2 (split_sep CHR ''.'' (''1.10.'' @ t)) = [''1'', ''10'']"
  by (cases "split_sep CHR ''.'' t") (simp_all add: split_sep_nonempty)

lemma fields_fwd:
  assumes a: "take 2 (split_sep CHR ''.'' v) = [''1'', ''10'']"
  shows "v = ''1.10'' \<or> (\<exists>t. v = ''1.10.'' @ t)"
proof -
  let ?P = "\<lambda>x. x \<noteq> CHR ''.''"
  from a have h1: "takeWhile ?P v = ''1''"
    by (subst (asm) split_sep_unfold) simp
  have "v \<noteq> ''1''" using a by auto
  with first_field[OF h1] obtain r where v: "v = ''1.'' @ r"
    by auto
  from a v have "take 1 (split_sep CHR ''.'' r) = [''10'']" by simp
  then have h2: "takeWhile ?P r = ''10''"
    by (subst (asm) split_sep_unfold) simp
  from first_field[OF h2] have "r = ''10'' \<or> (\<exists>t. r = ''10'' @ CHR ''.'' # t)" by blast
  with v show ?thesis by auto
qed

lemma fields_1_10:
  "take 2 (split_sep CHR ''.'' v) = [''1'', ''10''] \<longleftrightarrow>
     v = ''1.10'' \<or> startswith v ''1.10.''"
  unfolding startswith_append using fields_fwd fields_rev by auto

lemma format_110:
  "format_py [(''version'', v)] (HDF5_110_FILE p) =
     ''https://www.hdfgroup.org/ftp/HDF5/releases/hdf5-1.10/hdf5-'' @ v @ ''/src/hdf5-'' @ v @
       (if is_win p then ''.zip'' else ''.tar.gz'')"
  by (simp add: HDF5_110_FILE_def HDF5_110_URL_def startswith_def)

lemma format_18:
  "format_py [(''version'', v)] (HDF5_18_FILE p) =
     ''https://www.hdfgroup.org/ftp/HDF5/releases/hdf5-1.8/hdf5-'' @ v @ ''/src/hdf5-'' @ v @
       (if is_win p then ''.zip'' else ''.gzip'')"
  by (simp add: HDF5_18_FILE_def HDF5_18_URL_def startswith_def)

section \<open>URL selection\<close>

text \<open>
  C3, as the spec states it: every version that begins with \<^verbatim>\<open>1.10\<close> is fetched from
  the 1.10 release tree. The version \<^verbatim>\<open>1.100.0\<close> begins with \<^verbatim>\<open>1.10\<close>, yet its
  second field is \<^verbatim>\<open>100\<close> and it is fetched from the 1.8 tree.
\<close>

theorem download_url_prefix_counterexample:
  "startswith ''1.100.0'' ''1.10'' \<and>
   download_url ''linux'' ''1.100.0'' =
     ''https://www.hdfgroup.org/ftp/HDF5/releases/hdf5-1.8/hdf5-1.100.0/src/hdf5-1.100.0.gzip''"
  by (simp add: download_url_def format_18 is_win_def startswith_def)

text \<open>
  C3, amended: the URL is a function of the platform and the version alone. A version
  whose first two dot-separated fields are \<^verbatim>\<open>1\<close> and \<^verbatim>\<open>10\<close>, that is the string
  \<^verbatim>\<open>1.10\<close> or a string beginning \<^verbatim>\<open>1.10.\<close>, is fetched from the 1.10 release tree
  and every other version from the 1.8 tree; the URL ends in \<^verbatim>\<open>.zip\<close> exactly on the
  Windows platform family, and otherwise in \<^verbatim>\<open>.tar.gz\<close> (1.10 tree) or \<^verbatim>\<open>.gzip\<close>
  (1.8 tree).
\<close>

theorem download_url_selection:
  "download_url plat version =
     (if version = ''1.10'' \<or> startswith version ''1.10.''
      then ''https://www.hdfgroup.org/ftp/HDF5/releases/hdf5-1.10/hdf5-'' @ version @
             ''/src/hdf5-'' @ version @ (if is_win plat then ''.zip'' else ''.tar.gz'')
      else ''https://www.hdfgroup.org/ftp/HDF5/releases/hdf5-1.8/hdf5-'' @ version @
             ''/src/hdf5-'' @ version @ (if is_win plat then ''.zip'' else ''.gzip''))
   \<and> endswith (download_url plat version) ''.zip'' = is_win plat"
proof -
  have url: "download_url plat version =
     (if version = ''1.10'' \<or> startswith version ''1.10.''
      then ''https://www.hdfgroup.org/ftp/HDF5/releases/hdf5-1.10/hdf5-'' @ version @
             ''/src/hdf5-'' @ version @ (if is_win plat then ''.zip'' else ''.tar.gz'')
      else ''https://www.hdfgroup.org/ftp/HDF5/releases/hdf5-1.8/hdf5-'' @ version @
             ''/src/hdf5-'' @ version @ (if is_win plat then ''.zip'' else ''.gzip''))"
    unfolding download_url_def fields_1_10 format_110 format_18 by (rule refl)
  have zip: "\<And>s. endswith (s @ ''.zip'') ''.zip''"
    by (simp add: endswith_append) (simp add: endswith_def)
  have gzip: "\<And>s. \<not> endswith (s @ ''.gzip'') ''.zip''"
    by (simp add: endswith_append) (simp add: endswith_def)
  have targz: "\<And>s. \<not> endswith (s @ ''.tar.gz'') ''.zip''"
    by (simp add: endswith_append) (simp add: endswith_def)
  have "endswith (download_url plat version) ''.zip'' = is_win plat"
    unfolding url using zip gzip targz
    by (simp only: append_assoc [symmetric] split: if_splits) simp
  with url show ?thesis by (rule conjI)
qed

section \<open>The CMake install-prefix argument\<close>

text \<open>
  C7: without an install path the argument is the blank string of one space, not a flag
  built from the text \<^verbatim>\<open>None\<close>; with an install path it is the
  \<^verbatim>\<open>-DCMAKE_INSTALL_PREFIX=\<close> flag followed by that path.
\<close>

theorem get_cmake_install_path_blank_or_flag:
  "get_cmake_install_path None = '' '' \<and>
   get_cmake_install_path (Some p) = ''-DCMAKE_INSTALL_PREFIX='' @ p"
  by (simp add: get_cmake_install_path_def CMAKE_INSTALL_PATH_ARG_def startswith_def)

section \<open>Facts about the program combinators\<close>

lemmas prog_defs = ret_def raise_def seq_def lift_def emit_def on_exit_def getcwd_def chdir_def
  print_err_def print_out_def TemporaryDirectory_def TemporaryFile_def run_def check_returncode_def

lemma for_each_print_out:
  "for_each xs (\<lambda>x. print_out (f x)) s =
     (Inr (), s\<lparr>trace := trace s @ map (\<lambda>x. PrintOut (f x)) xs\<rparr>)"
  by (induction xs arbitrary: s) (simp_all add: prog_defs)

lemma for_each_listing:
  "for_each ws (\<lambda>(d, dn, fs). for_each fs (\<lambda>file. print_out (g d file))) s =
     (Inr (), s\<lparr>trace := trace s @
        concat (map (\<lambda>(d, dn, fs). map (\<lambda>file. PrintOut (g d file)) fs) ws)\<rparr>)"
  by (induction ws arbitrary: s) (auto simp: for_each_print_out seq_def ret_def)

section \<open>The cache check\<close>

text \<open>
  C6: for every install path \<open>p\<close>, \<^verbatim>\<open>hdf5_cached\<close> returns whether the file
  \<^verbatim>\<open>lib/hdf5.dll\<close> joined to \<open>p\<close> exists: the answer depends on the existence of
  that one path and on nothing else on the host, and the function has no effect on the
  process (it is a value, not a program). On a host that is not Windows the path is
  \<open>p\<close>, a slash unless \<open>p\<close> is empty or ends with one, and \<^verbatim>\<open>lib/hdf5.dll\<close>.
\<close>

theorem hdf5_cached_artifact:
  "hdf5_cached h (Some p) = Inr (path_exists h (path_join h p [''lib'', ''hdf5.dll''])) \<and>
   (\<not> is_win (platform h) \<longrightarrow>
      path_join h p [''lib'', ''hdf5.dll''] =
        (if p = [] \<or> endswith p ''/'' then p @ ''lib/hdf5.dll'' else p @ ''/lib/hdf5.dll''))"
  by (simp add: hdf5_cached_def pjoin_def path_join_def posixpath_join_def startswith_def
      endswith_def)

theorem hdf5_cached_artifact_witness:
  "\<not> is_win (platform linux_host) \<and>
   hdf5_cached linux_host (Some ''/tmp/out'') =
     Inr (path_exists linux_host ''/tmp/out/lib/hdf5.dll'') \<and>
   hdf5_cached linux_host (Some ''/tmp/out'') = Inr False"
  using hdf5_cached_artifact [of linux_host "''/tmp/out''"]
  by (simp add: linux_host_def is_win_def startswith_def endswith_def)

section \<open>The CMake path\<close>

text \<open>
  C9: on the Windows platform family \<^verbatim>\<open>build_hdf5\<close> calls \<^verbatim>\<open>get_cmake_cmds\<close> with
  four arguments for its five required parameters. The call raises \<^verbatim>\<open>TypeError\<close>;
  the build step has by then created the extraction directory and unpacked the zip
  archive, and it ends there: no command is built, no subprocess is started and the
  working directory is not changed.
\<close>

theorem cmake_build_TypeError:
  assumes "is_win (platform h)"
  shows "call_get_cmake_cmds h (Given version) (Given install_path) (Given cmake_generator)
           (Given use_prefix) Missing = Inl TypeError \<and>
         build_hdf5 h version install_path cmake_generator use_prefix with_mpi s =
           (Inl TypeError,
            s\<lparr>tmp_count := Suc (tmp_count s),
               trace := trace s @ [TmpDirCreate (tmpdir_name h (tmp_count s)),
                                   ExtractZip (tmpdir_name h (tmp_count s)),
                                   TmpDirRemove (tmpdir_name h (tmp_count s))]\<rparr>)"
  using assms
  by (simp add: build_hdf5_def call_get_cmake_cmds_def prog_defs Let_def)

theorem cmake_build_TypeError_witness:
  "is_win (platform windows_host_with_dir) \<and>
   build_hdf5 windows_host_with_dir ''1.10.2'' (Some ''C:/out'')
       (Some ''Visual Studio 14 2015 Win64'') False False (start ''C:/ci'') =
     (Inl TypeError,
      \<lparr>cwd = ''C:/ci'', tmp_count = 1,
       trace = [TmpDirCreate ''C:/tmp/tmpa'', ExtractZip ''C:/tmp/tmpa'',
                TmpDirRemove ''C:/tmp/tmpa'']\<rparr>)"
proof -
  have w: "is_win (platform windows_host_with_dir)"
    by (simp add: windows_host_with_dir_def windows_host_def is_win_def startswith_def)
  show ?thesis
    using w cmake_build_TypeError [OF w, of "''1.10.2''" "Some ''C:/out''"
        "Some ''Visual Studio 14 2015 Win64''" False False "start ''C:/ci''"]
    by (simp add: windows_host_with_dir_def windows_host_def start_def)
qed

text \<open>
  C1: the Windows scenario of the spec (version 1.10.2, generator token 14-64, no install
  path). The run ends in \<^verbatim>\<open>TypeError\<close> at the cache check, before anything is
  downloaded, unpacked, configured or copied.
\<close>

theorem main_windows_scenario:
  "main windows_host (start ''C:/ci'') = (Inl TypeError, start ''C:/ci'')"
  by (simp add: main_def windows_host_def hdf5_cached_def pjoin_def prog_defs start_def
      VSVERSION_TO_GENERATOR_def)

text \<open>
  Called with all five arguments, \<^verbatim>\<open>get_cmake_cmds\<close> does build the commands of that
  scenario: the fixed configure flags, the blank install-prefix argument, the unpacked
  source directory and the generator, then one \<^verbatim>\<open>cmake --build\<close> command.
\<close>

lemma get_cmake_cmds_all_arguments:
  "get_cmake_cmds h ''1.10.2'' None (Some ''Visual Studio 14 2015 Win64'') False x =
     (map Some (CMAKE_CONFIGURE_CMD @
        ['' '', get_unpacked_path h ''1.10.2'' x, ''-G'', ''Visual Studio 14 2015 Win64'']),
      [[''cmake'', ''--build'', ''.'', ''--target'', ''install'', ''--config'', ''Release'']])"
  by (simp add: get_cmake_cmds_def get_cmake_install_path_def CMAKE_BUILD_CMD_def
      CMAKE_INSTALL_ARG_def)

section \<open>A run without an install path\<close>

text \<open>
  C10: when \<^verbatim>\<open>HDF5_DIR\<close> is unset, \<^verbatim>\<open>hdf5_cached(None)\<close> raises \<^verbatim>\<open>TypeError\<close> and
  \<^verbatim>\<open>main\<close> ends with an uncaught error and exit status 1 before any download,
  extraction or build step: the only thing the run can have done is to start the
  Visual Studio 2008 patch script. The error is the \<^verbatim>\<open>TypeError\<close> of the cache check
  whenever the generator lookup before it succeeds; an unknown generator token ends the
  run one step earlier with \<^verbatim>\<open>KeyError\<close>.
\<close>

theorem main_no_install_path:
  assumes "environ h ''HDF5_DIR'' = None"
  shows "hdf5_cached h None = Inl TypeError \<and>
         main h s =
           (Inl (case environ h ''HDF5_VSVERSION'' of
                   None \<Rightarrow> TypeError
                 | Some vs \<Rightarrow> (case VSVERSION_TO_GENERATOR vs of
                               None \<Rightarrow> KeyError | Some g \<Rightarrow> TypeError)),
            s\<lparr>trace := trace s @
                 (if environ h ''HDF5_VSVERSION'' = Some ''9-64''
                  then [RunString setup_x64_bat] else [])\<rparr>) \<and>
         exit_status (fst (main h s)) = 1"
  using assms
  by (auto simp: main_def hdf5_cached_def pjoin_def prog_defs Let_def VSVERSION_TO_GENERATOR_def
      exit_status_def split: option.splits)

theorem main_no_install_path_witness:
  "environ linux_host_no_dir ''HDF5_DIR'' = None \<and>
   main linux_host_no_dir (start ''/home/ci'') = (Inl TypeError, start ''/home/ci'') \<and>
   exit_status (fst (main linux_host_no_dir (start ''/home/ci''))) = 1"
proof -
  have e: "environ linux_host_no_dir ''HDF5_DIR'' = None"
    by (simp add: linux_host_no_dir_def)
  show ?thesis
    using e main_no_install_path [OF e, of "start ''/home/ci''"]
    by (simp add: linux_host_no_dir_def start_def exit_status_def)
qed

section \<open>The build step and the run, case by case\<close>

lemma build_autotools_outcome:
  assumes "\<not> is_win (platform h)"
  shows "build_hdf5 h v (Some p) g u m s =
     (case autotools_run h v p m (cwd s) (tmp_count s) of
        (r, c, evs) \<Rightarrow>
          (r, s\<lparr>cwd := c, tmp_count := Suc (Suc (tmp_count s)), trace := trace s @ evs\<rparr>))"
  using assms
  by (simp add: build_hdf5_def autotools_run_def prog_defs get_autotools_cmds_def Let_def
      py_str_def startswith_def popen_def)

lemma autotools_run_no_walk:
  "filter is_walk (snd (snd (autotools_run h v p m old n))) = []"
  by (simp add: autotools_run_def Let_def)

lemma autotools_run_failed:
  assumes "Run argv sh d \<in> set (snd (snd (autotools_run h v p m old n)))"
    and "returncode h argv \<noteq> 0"
  shows "fst (autotools_run h v p m old n) = Inl (CalledProcessError (returncode h argv)) \<and>
         last (filter is_run (snd (snd (autotools_run h v p m old n)))) = Run argv sh d"
  using assms
  by (auto simp: autotools_run_def Let_def split: if_splits)


lemma filter_listing [simp]:
  "filter is_run (listing h p) = []" "filter is_walk (listing h p) = []"
  by (auto simp: listing_def filter_empty_conv)

lemma filter_prelude [simp]:
  "filter is_run (prelude_events h) = []" "filter is_walk (prelude_events h) = []"
  by (auto simp: prelude_events_def split: option.splits)

lemma build_win:
  assumes "is_win (platform h)"
  shows "build_hdf5 h version install_path cmake_generator use_prefix with_mpi s =
           (Inl TypeError,
            s\<lparr>tmp_count := Suc (tmp_count s),
               trace := trace s @ [TmpDirCreate (tmpdir_name h (tmp_count s)),
                                   ExtractZip (tmpdir_name h (tmp_count s)),
                                   TmpDirRemove (tmpdir_name h (tmp_count s))]\<rparr>)"
  using assms
  by (simp add: build_hdf5_def call_get_cmake_cmds_def prog_defs Let_def)

lemmas main_progs = ret_def raise_def seq_def lift_def emit_def on_exit_def print_err_def
  TemporaryFile_def

lemma generator_9_64:
  "VSVERSION_TO_GENERATOR ''9-64'' = Some ''Visual Studio 9 2008 Win64''"
  by (simp add: VSVERSION_TO_GENERATOR_def)

lemmas main_defs = generator_9_64 hdf5_cached_def pjoin_def download_hdf5_def main_progs Let_def
  for_each_listing listing_def

lemma main_None:
  assumes "environ h ''HDF5_DIR'' = None"
  shows "main h s =
           (Inl (if generator_known h then TypeError else KeyError),
            s\<lparr>trace := trace s @ prelude_events h\<rparr>)"
  using assms
  unfolding main_def resolved_version_def [symmetric] generator_known_def prelude_events_def
  by (cases "environ h ''HDF5_VSVERSION''") (auto simp: main_defs split: option.split)

lemma main_KeyError:
  assumes "\<not> generator_known h"
  shows "main h s = (Inl KeyError, s\<lparr>trace := trace s @ prelude_events h\<rparr>)"
  using assms
  unfolding main_def resolved_version_def [symmetric] generator_known_def prelude_events_def
  by (cases "environ h ''HDF5_VSVERSION''"; cases "environ h ''HDF5_DIR''")
     (auto simp: main_defs split: option.split)

lemma main_cached:
  assumes "environ h ''HDF5_DIR'' = Some p" and "generator_known h"
    and "path_exists h (path_join h p [''lib'', ''hdf5.dll''])"
  shows "main h s =
           (Inr (), s\<lparr>trace := trace s @ prelude_events h @
                        [PrintErr ''using cached hdf5'', PrintErr ''hdf5 files: '', Walk p] @
                        listing h p\<rparr>)"
  using assms
  unfolding main_def resolved_version_def [symmetric] generator_known_def prelude_events_def
  by (cases "environ h ''HDF5_VSVERSION''") (auto simp: main_defs split: option.split)

lemma main_download_failed:
  assumes "environ h ''HDF5_DIR'' = Some p" and "generator_known h"
    and "\<not> path_exists h (path_join h p [''lib'', ''hdf5.dll''])"
    and "raise_for_status (http_status h (download_url (platform h) (resolved_version h)))"
  shows "main h s =
           (Inl (SystemExit 1),
            s\<lparr>trace := trace s @ prelude_events h @ download_events h @
                 [PrintErr (''Failed to download hdf5 version '' @ resolved_version h @
                            '', exiting''),
                  TmpFileClose]\<rparr>)"
  using assms
  unfolding main_def resolved_version_def [symmetric] generator_known_def prelude_events_def
    download_events_def
  by (cases "environ h ''HDF5_VSVERSION''")
     (auto simp: main_defs startswith_def split: option.split)

lemma main_win:
  assumes "environ h ''HDF5_DIR'' = Some p" and "generator_known h"
    and "\<not> path_exists h (path_join h p [''lib'', ''hdf5.dll''])"
    and "\<not> raise_for_status (http_status h (download_url (platform h) (resolved_version h)))"
    and "is_win (platform h)"
  shows "main h s =
           (Inl TypeError,
            s\<lparr>tmp_count := Suc (tmp_count s),
               trace := trace s @ prelude_events h @ download_events h @
                 [CopyBody, Seek0, TmpDirCreate (tmpdir_name h (tmp_count s)),
                  ExtractZip (tmpdir_name h (tmp_count s)),
                  TmpDirRemove (tmpdir_name h (tmp_count s)), TmpFileClose]\<rparr>)"
  using assms
  unfolding main_def resolved_version_def [symmetric] generator_known_def prelude_events_def
    download_events_def
  by (cases "environ h ''HDF5_VSVERSION''")
     (auto simp: main_defs build_win split: option.split)

lemma main_autotools:
  assumes "environ h ''HDF5_DIR'' = Some p" and "generator_known h"
    and "\<not> path_exists h (path_join h p [''lib'', ''hdf5.dll''])"
    and "\<not> raise_for_status (http_status h (download_url (platform h) (resolved_version h)))"
    and "\<not> is_win (platform h)"
  shows "main h s =
     (case autotools_run h (resolved_version h) p (environ h ''HDF5_MPI'' = Some ''ON'')
             (cwd s) (tmp_count s) of
        (r, c, evs) \<Rightarrow>
          (r, s\<lparr>cwd := c, tmp_count := Suc (Suc (tmp_count s)),
                trace := trace s @ prelude_events h @ download_events h @ [CopyBody, Seek0] @
                  evs @ [TmpFileClose] @
                  (case r of Inl e \<Rightarrow> []
                   | Inr x \<Rightarrow> [PrintErr ''hdf5 files: '', Walk p] @ listing h p)\<rparr>))"
  using assms
  unfolding main_def resolved_version_def [symmetric] generator_known_def prelude_events_def
    download_events_def
  by (cases "environ h ''HDF5_VSVERSION''")
     (auto simp: main_defs build_autotools_outcome split: option.split prod.split sum.split)


lemma events_append: "events s (s\<lparr>trace := trace s @ xs\<rparr>) = xs"
  by (simp add: events_def)

lemma events_append2: "events s (s\<lparr>cwd := c, tmp_count := n, trace := trace s @ xs\<rparr>) = xs"
  by (simp add: events_def)

lemma events_append3: "events s (s\<lparr>tmp_count := n, trace := trace s @ xs\<rparr>) = xs"
  by (simp add: events_def)

lemma filter_download [simp]:
  "filter is_run (download_events h) = []" "filter is_walk (download_events h) = []"
  by (simp_all add: download_events_def)

lemma run_in_filter: "Run argv sh d \<in> set xs \<Longrightarrow> filter is_run xs \<noteq> []"
  by (metis filter_empty_conv is_run.simps(1))

section \<open>A failing subprocess\<close>

text \<open>
  C5: every call of \<^verbatim>\<open>subprocess.run\<close> on an argument list is followed by
  \<^verbatim>\<open>check_returncode\<close>. If a run of \<^verbatim>\<open>main\<close> starts such a subprocess and it
  returns a nonzero code, the run ends with the uncaught \<^verbatim>\<open>CalledProcessError\<close> of
  that code and exit status 1, that subprocess is the last one the run starts, and the
  run never walks the install path.
\<close>

theorem failed_subprocess_aborts:
  assumes run: "Run argv sh d \<in> set (events s (snd (main h s)))"
    and rc: "returncode h argv \<noteq> 0"
  shows "fst (main h s) = Inl (CalledProcessError (returncode h argv)) \<and>
         exit_status (fst (main h s)) = 1 \<and>
         last (filter is_run (events s (snd (main h s)))) = Run argv sh d \<and>
         filter is_walk (events s (snd (main h s))) = []"
proof -
  from run have ne: "filter is_run (events s (snd (main h s))) \<noteq> []"
    by (rule run_in_filter)
  have known: "generator_known h"
    using ne by (cases "generator_known h") (simp_all add: main_KeyError events_append)
  obtain p where dir: "environ h ''HDF5_DIR'' = Some p"
    using ne by (cases "environ h ''HDF5_DIR''") (simp_all add: main_None events_append)
  have nc: "\<not> path_exists h (path_join h p [''lib'', ''hdf5.dll''])"
    using ne main_cached [OF dir known, of s] by (auto simp: events_append)
  have ok: "\<not> raise_for_status (http_status h (download_url (platform h) (resolved_version h)))"
    using ne main_download_failed [OF dir known nc, of s] by (auto simp: events_append)
  have nw: "\<not> is_win (platform h)"
    using ne main_win [OF dir known nc ok, of s] by (auto simp: events_append3)
  obtain r c evs where a: "autotools_run h (resolved_version h) p
       (environ h ''HDF5_MPI'' = Some ''ON'') (cwd s) (tmp_count s) = (r, c, evs)"
    by (cases "autotools_run h (resolved_version h) p
       (environ h ''HDF5_MPI'' = Some ''ON'') (cwd s) (tmp_count s)") auto
  let ?tail = "case r of Inl e \<Rightarrow> [] | Inr x \<Rightarrow> [PrintErr ''hdf5 files: '', Walk p] @ listing h p"
  have m: "main h s = (r, s\<lparr>cwd := c, tmp_count := Suc (Suc (tmp_count s)),
                trace := trace s @ (prelude_events h @ download_events h @ [CopyBody, Seek0] @
                  evs @ [TmpFileClose] @ ?tail)\<rparr>)"
    using main_autotools [OF dir known nc ok nw, of s] a by simp
  have ev: "events s (snd (main h s)) =
      prelude_events h @ download_events h @ [CopyBody, Seek0] @ evs @ [TmpFileClose] @ ?tail"
    unfolding m by (simp only: snd_conv events_append2)
  have "Run argv sh d \<in> set (filter is_run (events s (snd (main h s))))"
    using run by simp
  then have "Run argv sh d \<in> set (filter is_run evs)"
    unfolding ev by (cases r) simp_all
  then have in_evs: "Run argv sh d \<in> set (snd (snd (autotools_run h (resolved_version h) p
       (environ h ''HDF5_MPI'' = Some ''ON'') (cwd s) (tmp_count s))))"
    using a by simp
  from autotools_run_failed [OF in_evs rc] a
  have r: "r = Inl (CalledProcessError (returncode h argv))"
    and l: "last (filter is_run evs) = Run argv sh d"
    by simp_all
  have nwalk: "filter is_walk evs = []"
    using autotools_run_no_walk [of h "resolved_version h" p
       "environ h ''HDF5_MPI'' = Some ''ON''" "cwd s" "tmp_count s"] a by simp
  show ?thesis
    unfolding ev using r l nwalk by (simp add: m exit_status_def)
qed


theorem failed_subprocess_aborts_witness:
  "Run [''make'', ''install''] True ''/tmp/tmpa/hdf5-1.8.17''
     \<in> set (events (start ''/home/ci'') (snd (main linux_host_make_install_fails (start ''/home/ci'')))) \<and>
   returncode linux_host_make_install_fails [''make'', ''install''] \<noteq> 0 \<and>
   fst (main linux_host_make_install_fails (start ''/home/ci'')) = Inl (CalledProcessError 2) \<and>
   filter is_walk (events (start ''/home/ci'')
      (snd (main linux_host_make_install_fails (start ''/home/ci'')))) = []"
proof -
  let ?h = linux_host_make_install_fails
  have f: "\<not> is_win (platform ?h)" "environ ?h ''HDF5_DIR'' = Some ''/tmp/out''"
    "generator_known ?h" "resolved_version ?h = ''1.8.17''"
    "\<not> path_exists ?h (path_join ?h ''/tmp/out'' [''lib'', ''hdf5.dll''])"
    "\<not> raise_for_status (http_status ?h (download_url (platform ?h) (resolved_version ?h)))"
    by (simp_all add: linux_host_make_install_fails_def linux_host_def is_win_def startswith_def
        generator_known_def resolved_version_def raise_for_status_def)
  have rc: "returncode ?h [''make'', ''install''] \<noteq> 0"
    by (simp add: linux_host_make_install_fails_def)
  have run: "Run [''make'', ''install''] True ''/tmp/tmpa/hdf5-1.8.17''
     \<in> set (events (start ''/home/ci'') (snd (main ?h (start ''/home/ci''))))"
    unfolding main_autotools [OF f(2) f(3) f(5) f(6) f(1)]
    by (simp add: autotools_run_def events_def start_def Let_def linux_host_make_install_fails_def
        linux_host_def get_unpacked_path_def path_join_def posixpath_join_def is_win_def
        startswith_def endswith_def REL_PATH_TO_UNPACKED_DIR_def resolved_version_def)
  show ?thesis
    using run rc failed_subprocess_aborts [OF run rc]
    by (simp add: linux_host_make_install_fails_def)
qed


lemma autotools_run_no_get:
  "HttpGet u \<notin> set (snd (snd (autotools_run h v p m old n)))"
  by (simp add: autotools_run_def Let_def)

lemma prelude_no_get: "HttpGet u \<notin> set (prelude_events h)"
  by (auto simp: prelude_events_def split: option.splits)

lemma listing_no_get: "HttpGet u \<notin> set (listing h p)"
  by (auto simp: listing_def)

lemma get_in_download:
  "HttpGet u \<in> set (download_events h) \<longleftrightarrow> u = download_url (platform h) (resolved_version h)"
  by (auto simp: download_events_def)

lemma url_1_8_17:
  "\<not> is_win plat \<Longrightarrow> download_url plat ''1.8.17'' =
     ''https://www.hdfgroup.org/ftp/HDF5/releases/hdf5-1.8/hdf5-1.8.17/src/hdf5-1.8.17.gzip''"
  by (simp add: download_url_def format_18)

lemmas linux_eval = linux_host_def is_win_def startswith_def endswith_def generator_known_def
  resolved_version_def raise_for_status_def path_join_def posixpath_join_def

section \<open>A failed download\<close>

text \<open>
  C4, as the spec states it: any status outside 200 to 299 makes the script print the
  failure diagnostic and exit with status 1 before an extraction is attempted.
  \<^verbatim>\<open>raise_for_status\<close> raises only for the codes 400 to 599. When the server answers
  300, \<^verbatim>\<open>download_hdf5\<close> returns normally: the run copies the body and goes on to the
  extraction, it never prints the diagnostic, and it does not end in \<^verbatim>\<open>exit(1)\<close>.
\<close>

theorem download_status_counterexample:
  "http_status linux_host_300
     ''https://www.hdfgroup.org/ftp/HDF5/releases/hdf5-1.8/hdf5-1.8.17/src/hdf5-1.8.17.gzip'' = 300 \<and>
   HttpGet ''https://www.hdfgroup.org/ftp/HDF5/releases/hdf5-1.8/hdf5-1.8.17/src/hdf5-1.8.17.gzip''
     \<in> set (events (start ''/home/ci'') (snd (main linux_host_300 (start ''/home/ci'')))) \<and>
   download_hdf5 linux_host_300 ''1.8.17'' (start ''/home/ci'') =
     (Inr (),
      \<lparr>cwd = ''/home/ci'', tmp_count = 0,
       trace =
         [PrintErr ''Downloading https://www.hdfgroup.org/ftp/HDF5/releases/hdf5-1.8/hdf5-1.8.17/src/hdf5-1.8.17.gzip'',
          HttpGet ''https://www.hdfgroup.org/ftp/HDF5/releases/hdf5-1.8/hdf5-1.8.17/src/hdf5-1.8.17.gzip'',
          CopyBody]\<rparr>) \<and>
   PrintErr ''Failed to download hdf5 version 1.8.17, exiting''
     \<notin> set (events (start ''/home/ci'') (snd (main linux_host_300 (start ''/home/ci'')))) \<and>
   ExtractTarGz ''/tmp/tmpa''
     \<in> set (events (start ''/home/ci'') (snd (main linux_host_300 (start ''/home/ci'')))) \<and>
   fst (main linux_host_300 (start ''/home/ci'')) \<noteq> Inl (SystemExit 1)"
proof -
  let ?h = linux_host_300
  let ?url = "''https://www.hdfgroup.org/ftp/HDF5/releases/hdf5-1.8/hdf5-1.8.17/src/hdf5-1.8.17.gzip''"
  have f: "environ ?h ''HDF5_DIR'' = Some ''/tmp/out''" "generator_known ?h"
    "\<not> path_exists ?h (path_join ?h ''/tmp/out'' [''lib'', ''hdf5.dll''])"
    "resolved_version ?h = ''1.8.17''" "\<not> is_win (platform ?h)"
    by (simp_all add: linux_host_300_def linux_eval)
  have u: "download_url (platform ?h) (resolved_version ?h) = ?url"
    using f(4) f(5) by (simp add: url_1_8_17)
  have u': "download_url (platform ?h) ''1.8.17'' = ?url"
    using f(5) by (simp add: url_1_8_17)
  have ok: "\<not> raise_for_status (http_status ?h (download_url (platform ?h) (resolved_version ?h)))"
    by (simp add: linux_host_300_def raise_for_status_def)
  have ok': "\<not> raise_for_status (http_status ?h ?url)"
    by (simp add: linux_host_300_def raise_for_status_def)
  have mpi: "(environ ?h ''HDF5_MPI'' = Some ''ON'') = False"
    by (simp add: linux_host_300_def linux_host_def)
  have r: "fst (autotools_run ?h ''1.8.17'' ''/tmp/out'' False ''/home/ci'' 0) = Inr ()"
    "fst (snd (autotools_run ?h ''1.8.17'' ''/tmp/out'' False ''/home/ci'' 0)) = ''/home/ci''"
    by (simp_all add: autotools_run_def Let_def linux_host_300_def linux_host_def)
  obtain evs where a: "autotools_run ?h ''1.8.17'' ''/tmp/out'' False ''/home/ci'' 0 =
     (Inr (), ''/home/ci'', evs)"
    using r by (cases "autotools_run ?h ''1.8.17'' ''/tmp/out'' False ''/home/ci'' 0") auto
  have "ExtractTarGz ''/tmp/tmpa''
      \<in> set (snd (snd (autotools_run ?h ''1.8.17'' ''/tmp/out'' False ''/home/ci'' 0)))"
    by (simp add: autotools_run_def Let_def linux_host_300_def linux_host_def)
  then have ex: "ExtractTarGz ''/tmp/tmpa'' \<in> set evs"
    unfolding a by simp
  have "PrintErr ''Failed to download hdf5 version 1.8.17, exiting''
      \<notin> set (snd (snd (autotools_run ?h ''1.8.17'' ''/tmp/out'' False ''/home/ci'' 0)))"
    by (simp add: autotools_run_def Let_def linux_host_300_def linux_host_def)
  then have nd: "PrintErr ''Failed to download hdf5 version 1.8.17, exiting'' \<notin> set evs"
    unfolding a by simp
  have pre: "prelude_events ?h = [Makedirs ''/tmp/out'']"
    by (simp add: prelude_events_def linux_host_300_def linux_host_def)
  have l: "listing ?h ''/tmp/out'' = []"
    by (simp add: listing_def linux_host_300_def linux_eval)
  have m: "main ?h (start ''/home/ci'') =
     (Inr (), (start ''/home/ci'')\<lparr>cwd := ''/home/ci'', tmp_count := Suc (Suc 0),
        trace := trace (start ''/home/ci'') @ prelude_events ?h @ download_events ?h @
          [CopyBody, Seek0] @ evs @
          [TmpFileClose] @ [PrintErr ''hdf5 files: '', Walk ''/tmp/out''] @
          listing ?h ''/tmp/out''\<rparr>)"
    unfolding main_autotools [OF f(1) f(2) f(3) ok f(5)] f(4) mpi
    by (simp add: start_def a)
  have ev: "events (start ''/home/ci'') (snd (main ?h (start ''/home/ci''))) =
      prelude_events ?h @ download_events ?h @ [CopyBody, Seek0] @ evs @
      [TmpFileClose] @ [PrintErr ''hdf5 files: '', Walk ''/tmp/out''] @ listing ?h ''/tmp/out''"
    unfolding m by (simp only: snd_conv events_append2)
  have c1: "http_status ?h ?url = 300"
    by (simp add: linux_host_300_def)
  have c2: "HttpGet ?url \<in> set (events (start ''/home/ci'') (snd (main ?h (start ''/home/ci''))))"
    unfolding ev by (simp add: download_events_def u)
  have c3: "download_hdf5 ?h ''1.8.17'' (start ''/home/ci'') =
     (Inr (),
      \<lparr>cwd = ''/home/ci'', tmp_count = 0,
       trace = [PrintErr (''Downloading '' @ ?url), HttpGet ?url, CopyBody]\<rparr>)"
    using ok' by (simp add: download_hdf5_def u' main_progs Let_def start_def)
  have c4: "PrintErr ''Failed to download hdf5 version 1.8.17, exiting''
      \<notin> set (events (start ''/home/ci'') (snd (main ?h (start ''/home/ci''))))"
    unfolding ev pre l using nd by (simp add: download_events_def u)
  have c5: "ExtractTarGz ''/tmp/tmpa''
      \<in> set (events (start ''/home/ci'') (snd (main ?h (start ''/home/ci''))))"
    unfolding ev using ex by simp
  show ?thesis
    using c1 c2 c3 c4 c5 by (simp add: m)
qed

text \<open>
  C4, amended: if a run of \<^verbatim>\<open>main\<close> issues the HTTP GET and the answer has a status
  from 400 to 599 (the codes for which \<^verbatim>\<open>raise_for_status\<close> raises), the run prints
  the diagnostic that names the version and ends with \<^verbatim>\<open>exit(1)\<close>: after the GET the
  trace holds the diagnostic and the closing of the temporary file and nothing else, so
  nothing is unpacked or built and nothing is retried.
\<close>

theorem download_failure_exits:
  assumes get: "HttpGet url \<in> set (events s (snd (main h s)))"
    and bad: "raise_for_status (http_status h url)"
  shows "fst (main h s) = Inl (SystemExit 1) \<and>
         exit_status (fst (main h s)) = 1 \<and>
         events s (snd (main h s)) =
           prelude_events h @
           [TmpFileOpen, PrintErr (''Downloading '' @ url), HttpGet url,
            PrintErr (''Failed to download hdf5 version '' @ resolved_version h @ '', exiting''),
            TmpFileClose]"
proof -
  let ?url = "download_url (platform h) (resolved_version h)"
  have known: "generator_known h"
    using get by (cases "generator_known h") (simp_all add: main_KeyError events_append prelude_no_get)
  obtain p where dir: "environ h ''HDF5_DIR'' = Some p"
    using get by (cases "environ h ''HDF5_DIR''") (simp_all add: main_None events_append prelude_no_get)
  have nc: "\<not> path_exists h (path_join h p [''lib'', ''hdf5.dll''])"
    using get main_cached [OF dir known, of s]
    by (auto simp: events_append prelude_no_get listing_no_get)
  have url: "url = ?url"
  proof (cases "raise_for_status (http_status h ?url)")
    case True
    from get main_download_failed [OF dir known nc True, of s] show ?thesis
      by (simp add: events_append prelude_no_get get_in_download)
  next
    case ok: False
    show ?thesis
    proof (cases "is_win (platform h)")
      case True
      from get main_win [OF dir known nc ok True, of s] show ?thesis
        by (simp add: events_append3 prelude_no_get get_in_download)
    next
      case False
      obtain r c evs where a: "autotools_run h (resolved_version h) p
           (environ h ''HDF5_MPI'' = Some ''ON'') (cwd s) (tmp_count s) = (r, c, evs)"
        by (cases "autotools_run h (resolved_version h) p
           (environ h ''HDF5_MPI'' = Some ''ON'') (cwd s) (tmp_count s)") auto
      have ng: "HttpGet url \<notin> set evs"
        using autotools_run_no_get [of url h "resolved_version h" p
           "environ h ''HDF5_MPI'' = Some ''ON''" "cwd s" "tmp_count s"] a by simp
      from get main_autotools [OF dir known nc ok False, of s] a ng show ?thesis
        by (cases r) (simp_all add: events_append2 prelude_no_get get_in_download listing_no_get)
    qed
  qed
  with bad have "raise_for_status (http_status h ?url)" by simp
  from main_download_failed [OF dir known nc this, of s] url show ?thesis
    by (simp add: events_append exit_status_def download_events_def)
qed


theorem download_failure_exits_witness:
  "HttpGet ''https://www.hdfgroup.org/ftp/HDF5/releases/hdf5-1.8/hdf5-1.8.17/src/hdf5-1.8.17.gzip''
     \<in> set (events (start ''/home/ci'') (snd (main linux_host_404 (start ''/home/ci'')))) \<and>
   raise_for_status (http_status linux_host_404
     ''https://www.hdfgroup.org/ftp/HDF5/releases/hdf5-1.8/hdf5-1.8.17/src/hdf5-1.8.17.gzip'') \<and>
   fst (main linux_host_404 (start ''/home/ci'')) = Inl (SystemExit 1) \<and>
   events (start ''/home/ci'') (snd (main linux_host_404 (start ''/home/ci''))) =
     [Makedirs ''/tmp/out'', TmpFileOpen,
      PrintErr ''Downloading https://www.hdfgroup.org/ftp/HDF5/releases/hdf5-1.8/hdf5-1.8.17/src/hdf5-1.8.17.gzip'',
      HttpGet ''https://www.hdfgroup.org/ftp/HDF5/releases/hdf5-1.8/hdf5-1.8.17/src/hdf5-1.8.17.gzip'',
      PrintErr ''Failed to download hdf5 version 1.8.17, exiting'', TmpFileClose]"
proof -
  let ?h = linux_host_404
  let ?url = "''https://www.hdfgroup.org/ftp/HDF5/releases/hdf5-1.8/hdf5-1.8.17/src/hdf5-1.8.17.gzip''"
  have f: "environ ?h ''HDF5_DIR'' = Some ''/tmp/out''" "generator_known ?h"
    "\<not> path_exists ?h (path_join ?h ''/tmp/out'' [''lib'', ''hdf5.dll''])"
    "resolved_version ?h = ''1.8.17''" "\<not> is_win (platform ?h)"
    by (simp_all add: linux_host_404_def linux_eval)
  have u: "download_url (platform ?h) (resolved_version ?h) = ?url"
    using f(4) f(5) by (simp add: url_1_8_17)
  have bad: "raise_for_status (http_status ?h ?url)"
    by (simp add: linux_host_404_def raise_for_status_def)
  have bad': "raise_for_status (http_status ?h (download_url (platform ?h) (resolved_version ?h)))"
    using bad u by simp
  have pre: "prelude_events ?h = [Makedirs ''/tmp/out'']"
    by (simp add: prelude_events_def linux_host_404_def linux_host_def)
  have get: "HttpGet ?url \<in> set (events (start ''/home/ci'') (snd (main ?h (start ''/home/ci''))))"
    unfolding main_download_failed [OF f(1) f(2) f(3) bad']
    by (simp add: events_append download_events_def u)
  show ?thesis
    using get bad download_failure_exits [OF get bad] pre f(4)
    by simp
qed


section \<open>The Linux scenario\<close>

text \<open>
  The run on a platform that is not Windows with version 1.8.17, install path
  \<^verbatim>\<open>/tmp/out\<close>, no generator token and MPI not requested, when the artifact is not
  cached, the download is not rejected and every subprocess returns 0: the whole trace,
  for every such host. \<open>d0\<close> is the extraction directory and \<open>w\<close> the directory
  \<^verbatim>\<open>hdf5-1.8.17\<close> joined to it.
\<close>

lemma linux_scenario_trace:
  assumes nw: "\<not> is_win (platform h)"
    and dir: "environ h ''HDF5_DIR'' = Some ''/tmp/out''"
    and ver: "environ h ''HDF5_VERSION'' = Some ''1.8.17''"
    and vs: "environ h ''HDF5_VSVERSION'' = None"
    and mpi: "environ h ''HDF5_MPI'' \<noteq> Some ''ON''"
    and nc: "\<not> path_exists h ''/tmp/out/lib/hdf5.dll''"
    and ok: "\<not> raise_for_status (http_status h
      ''https://www.hdfgroup.org/ftp/HDF5/releases/hdf5-1.8/hdf5-1.8.17/src/hdf5-1.8.17.gzip'')"
    and rc: "returncode h [''chmod'', ''+x'', ''autogen.sh''] = 0"
      "returncode h [''./autogen.sh''] = 0"
      "returncode h [''./configure'', ''--prefix'', ''/tmp/out''] = 0"
      "returncode h [''make''] = 0"
      "returncode h [''make'', ''install''] = 0"
    and d0: "d0 = tmpdir_name h (tmp_count s)"
    and d1: "d1 = tmpdir_name h (Suc (tmp_count s))"
    and w: "w = posixpath_join d0 [''hdf5-1.8.17'']"
  shows "main h s =
    (Inr (),
     s\<lparr>tmp_count := Suc (Suc (tmp_count s)),
       trace := trace s @
         (if path_exists h ''/tmp/out'' then [] else [Makedirs ''/tmp/out'']) @
         [TmpFileOpen,
          PrintErr ''Downloading https://www.hdfgroup.org/ftp/HDF5/releases/hdf5-1.8/hdf5-1.8.17/src/hdf5-1.8.17.gzip'',
          HttpGet ''https://www.hdfgroup.org/ftp/HDF5/releases/hdf5-1.8/hdf5-1.8.17/src/hdf5-1.8.17.gzip'',
          CopyBody, Seek0,
          TmpDirCreate d0, ExtractTarGz d0, TmpDirCreate d1, Chdir w,
          Run [''chmod'', ''+x'', ''autogen.sh''] False w,
          Exec (Direct [''chmod'', ''+x'', ''autogen.sh'']) w,
          Run [''./autogen.sh''] False w, Exec (Direct [''./autogen.sh'']) w,
          PrintErr ''Configuring HDF5 version 1.8.17...'',
          PrintErr ''./configure --prefix /tmp/out'',
          Run [''./configure'', ''--prefix'', ''/tmp/out''] False w,
          Exec (Direct [''./configure'', ''--prefix'', ''/tmp/out'']) w,
          PrintOut (proc_stdout h [''./configure'', ''--prefix'', ''/tmp/out'']),
          PrintErr ''Building HDF5 version 1.8.17...'',
          PrintErr ''make'', Run [''make''] True w,
          Exec (PosixShell ''make'' []) w, PrintOut ''None'',
          PrintErr ''make install'', Run [''make'', ''install''] True w,
          Exec (PosixShell ''make'' [''install'']) w, PrintOut ''None'',
          PrintErr ''Installed HDF5 version 1.8.17 to /tmp/out'',
          Chdir (cwd s), TmpDirRemove d1, TmpDirRemove d0, TmpFileClose,
          PrintErr ''hdf5 files: '', Walk ''/tmp/out''] @
         listing h ''/tmp/out''\<rparr>)"
proof -
  have v: "resolved_version h = ''1.8.17''"
    using ver by (simp add: resolved_version_def)
  have known: "generator_known h"
    using vs by (simp add: generator_known_def)
  have nc': "\<not> path_exists h (path_join h ''/tmp/out'' [''lib'', ''hdf5.dll''])"
    using nc nw by (simp add: path_join_def posixpath_join_def startswith_def endswith_def)
  have u: "download_url (platform h) (resolved_version h) =
      ''https://www.hdfgroup.org/ftp/HDF5/releases/hdf5-1.8/hdf5-1.8.17/src/hdf5-1.8.17.gzip''"
    using nw v by (simp add: url_1_8_17)
  have ok': "\<not> raise_for_status (http_status h (download_url (platform h) (resolved_version h)))"
    using ok u by simp
  have m: "(environ h ''HDF5_MPI'' = Some ''ON'') = False"
    using mpi by simp
  have pre: "prelude_events h = (if path_exists h ''/tmp/out'' then [] else [Makedirs ''/tmp/out''])"
    using dir vs by (simp add: prelude_events_def)
  have unp: "get_unpacked_path h ''1.8.17'' d0 = w"
    using nw w by (simp add: get_unpacked_path_def path_join_def REL_PATH_TO_UNPACKED_DIR_def
        startswith_def)
  have a: "autotools_run h ''1.8.17'' ''/tmp/out'' False (cwd s) (tmp_count s) =
     (Inr (), cwd s,
      [TmpDirCreate d0, ExtractTarGz d0, TmpDirCreate d1, Chdir w,
       Run [''chmod'', ''+x'', ''autogen.sh''] False w,
          Exec (Direct [''chmod'', ''+x'', ''autogen.sh'']) w,
       Run [''./autogen.sh''] False w, Exec (Direct [''./autogen.sh'']) w,
       PrintErr ''Configuring HDF5 version 1.8.17...'',
       PrintErr ''./configure --prefix /tmp/out'',
       Run [''./configure'', ''--prefix'', ''/tmp/out''] False w,
          Exec (Direct [''./configure'', ''--prefix'', ''/tmp/out'']) w,
       PrintOut (proc_stdout h [''./configure'', ''--prefix'', ''/tmp/out'']),
       PrintErr ''Building HDF5 version 1.8.17...'',
       PrintErr ''make'', Run [''make''] True w,
          Exec (PosixShell ''make'' []) w, PrintOut ''None'',
       PrintErr ''make install'', Run [''make'', ''install''] True w,
          Exec (PosixShell ''make'' [''install'']) w, PrintOut ''None'',
       PrintErr ''Installed HDF5 version 1.8.17 to /tmp/out'',
       Chdir (cwd s), TmpDirRemove d1, TmpDirRemove d0])"
    using rc by (simp add: autotools_run_def Let_def d0 [symmetric] d1 [symmetric] unp)
  show ?thesis
    unfolding main_autotools [OF dir known nc' ok' nw] v m a pre
    by (simp add: download_events_def v url_1_8_17 [OF nw])
qed

text \<open>
  C2: the scenario of the spec on the Linux host. The run downloads the \<^verbatim>\<open>.gzip\<close>
  archive of the 1.8 tree, unpacks it with gzip and tar, changes into the unpacked
  \<^verbatim>\<open>hdf5-1.8.17\<close> directory, runs \<^verbatim>\<open>./configure --prefix /tmp/out\<close> there and walks
  \<^verbatim>\<open>/tmp/out\<close> at the end, as the spec says. The two build commands are passed as
  lists to \<^verbatim>\<open>run\<close> with \<^verbatim>\<open>shell=True\<close>: the shell executes the command string
  \<^verbatim>\<open>make\<close> both times, the second time with \<^verbatim>\<open>install\<close> as its parameter
  \<^verbatim>\<open>$0\<close>. No child of the run executes \<^verbatim>\<open>make install\<close>, the script reports
  success, and the walk finds no installed file.
\<close>

theorem linux_scenario_make_install_not_run:
  "main linux_host (start ''/home/ci'') =
    (Inr (),
     \<lparr>cwd = ''/home/ci'', tmp_count = 2,
       trace =
         [Makedirs ''/tmp/out'', TmpFileOpen,
          PrintErr ''Downloading https://www.hdfgroup.org/ftp/HDF5/releases/hdf5-1.8/hdf5-1.8.17/src/hdf5-1.8.17.gzip'',
          HttpGet ''https://www.hdfgroup.org/ftp/HDF5/releases/hdf5-1.8/hdf5-1.8.17/src/hdf5-1.8.17.gzip'',
          CopyBody, Seek0,
          TmpDirCreate ''/tmp/tmpa'', ExtractTarGz ''/tmp/tmpa'', TmpDirCreate ''/tmp/tmpb'',
          Chdir ''/tmp/tmpa/hdf5-1.8.17'',
          Run [''chmod'', ''+x'', ''autogen.sh''] False ''/tmp/tmpa/hdf5-1.8.17'',
          Exec (Direct [''chmod'', ''+x'', ''autogen.sh'']) ''/tmp/tmpa/hdf5-1.8.17'',
          Run [''./autogen.sh''] False ''/tmp/tmpa/hdf5-1.8.17'', Exec (Direct [''./autogen.sh'']) ''/tmp/tmpa/hdf5-1.8.17'',
          PrintErr ''Configuring HDF5 version 1.8.17...'',
          PrintErr ''./configure --prefix /tmp/out'',
          Run [''./configure'', ''--prefix'', ''/tmp/out''] False ''/tmp/tmpa/hdf5-1.8.17'',
          Exec (Direct [''./configure'', ''--prefix'', ''/tmp/out'']) ''/tmp/tmpa/hdf5-1.8.17'',
          PrintOut ''ok'',
          PrintErr ''Building HDF5 version 1.8.17...'',
          PrintErr ''make'', Run [''make''] True ''/tmp/tmpa/hdf5-1.8.17'',
          Exec (PosixShell ''make'' []) ''/tmp/tmpa/hdf5-1.8.17'', PrintOut ''None'',
          PrintErr ''make install'',
          Run [''make'', ''install''] True ''/tmp/tmpa/hdf5-1.8.17'',
          Exec (PosixShell ''make'' [''install'']) ''/tmp/tmpa/hdf5-1.8.17'', PrintOut ''None'',
          PrintErr ''Installed HDF5 version 1.8.17 to /tmp/out'',
          Chdir ''/home/ci'', TmpDirRemove ''/tmp/tmpb'', TmpDirRemove ''/tmp/tmpa'',
          TmpFileClose, PrintErr ''hdf5 files: '', Walk ''/tmp/out'']\<rparr>) \<and>
   filter is_exec (trace (snd (main linux_host (start ''/home/ci'')))) =
     [Exec (Direct [''chmod'', ''+x'', ''autogen.sh'']) ''/tmp/tmpa/hdf5-1.8.17'',
      Exec (Direct [''./autogen.sh'']) ''/tmp/tmpa/hdf5-1.8.17'',
      Exec (Direct [''./configure'', ''--prefix'', ''/tmp/out'']) ''/tmp/tmpa/hdf5-1.8.17'',
      Exec (PosixShell ''make'' []) ''/tmp/tmpa/hdf5-1.8.17'',
      Exec (PosixShell ''make'' [''install'']) ''/tmp/tmpa/hdf5-1.8.17'']"
proof -
  let ?h = linux_host
  have nw: "\<not> is_win (platform ?h)"
    and dir: "environ ?h ''HDF5_DIR'' = Some ''/tmp/out''"
    and ver: "environ ?h ''HDF5_VERSION'' = Some ''1.8.17''"
    and vs: "environ ?h ''HDF5_VSVERSION'' = None"
    and mpi: "environ ?h ''HDF5_MPI'' \<noteq> Some ''ON''"
    and nc: "\<not> path_exists ?h ''/tmp/out/lib/hdf5.dll''"
    and ok: "\<not> raise_for_status (http_status ?h
      ''https://www.hdfgroup.org/ftp/HDF5/releases/hdf5-1.8/hdf5-1.8.17/src/hdf5-1.8.17.gzip'')"
    and rc: "returncode ?h [''chmod'', ''+x'', ''autogen.sh''] = 0"
      "returncode ?h [''./autogen.sh''] = 0"
      "returncode ?h [''./configure'', ''--prefix'', ''/tmp/out''] = 0"
      "returncode ?h [''make''] = 0"
      "returncode ?h [''make'', ''install''] = 0"
    by (simp_all add: linux_eval)
  have d0: "''/tmp/tmpa'' = tmpdir_name ?h (tmp_count (start ''/home/ci''))"
    and d1: "''/tmp/tmpb'' = tmpdir_name ?h (Suc (tmp_count (start ''/home/ci'')))"
    and w: "''/tmp/tmpa/hdf5-1.8.17'' = posixpath_join ''/tmp/tmpa'' [''hdf5-1.8.17'']"
    by (simp_all add: linux_eval start_def)
  have l: "listing ?h ''/tmp/out'' = []"
    by (simp add: listing_def linux_eval)
  have p: "path_exists ?h ''/tmp/out'' = False"
    by (simp add: linux_host_def)
  have m: "main linux_host (start ''/home/ci'') =
    (Inr (),
     \<lparr>cwd = ''/home/ci'', tmp_count = 2,
       trace =
         [Makedirs ''/tmp/out'', TmpFileOpen,
          PrintErr ''Downloading https://www.hdfgroup.org/ftp/HDF5/releases/hdf5-1.8/hdf5-1.8.17/src/hdf5-1.8.17.gzip'',
          HttpGet ''https://www.hdfgroup.org/ftp/HDF5/releases/hdf5-1.8/hdf5-1.8.17/src/hdf5-1.8.17.gzip'',
          CopyBody, Seek0,
          TmpDirCreate ''/tmp/tmpa'', ExtractTarGz ''/tmp/tmpa'', TmpDirCreate ''/tmp/tmpb'',
          Chdir ''/tmp/tmpa/hdf5-1.8.17'',
          Run [''chmod'', ''+x'', ''autogen.sh''] False ''/tmp/tmpa/hdf5-1.8.17'',
          Exec (Direct [''chmod'', ''+x'', ''autogen.sh'']) ''/tmp/tmpa/hdf5-1.8.17'',
          Run [''./autogen.sh''] False ''/tmp/tmpa/hdf5-1.8.17'', Exec (Direct [''./autogen.sh'']) ''/tmp/tmpa/hdf5-1.8.17'',
          PrintErr ''Configuring HDF5 version 1.8.17...'',
          PrintErr ''./configure --prefix /tmp/out'',
          Run [''./configure'', ''--prefix'', ''/tmp/out''] False ''/tmp/tmpa/hdf5-1.8.17'',
          Exec (Direct [''./configure'', ''--prefix'', ''/tmp/out'']) ''/tmp/tmpa/hdf5-1.8.17'',
          PrintOut ''ok'',
          PrintErr ''Building HDF5 version 1.8.17...'',
          PrintErr ''make'', Run [''make''] True ''/tmp/tmpa/hdf5-1.8.17'',
          Exec (PosixShell ''make'' []) ''/tmp/tmpa/hdf5-1.8.17'', PrintOut ''None'',
          PrintErr ''make install'',
          Run [''make'', ''install''] True ''/tmp/tmpa/hdf5-1.8.17'',
          Exec (PosixShell ''make'' [''install'']) ''/tmp/tmpa/hdf5-1.8.17'', PrintOut ''None'',
          PrintErr ''Installed HDF5 version 1.8.17 to /tmp/out'',
          Chdir ''/home/ci'', TmpDirRemove ''/tmp/tmpb'', TmpDirRemove ''/tmp/tmpa'',
          TmpFileClose, PrintErr ''hdf5 files: '', Walk ''/tmp/out'']\<rparr>)"
    unfolding linux_scenario_trace [OF nw dir ver vs mpi nc ok rc d0 d1 w] l p
    by (simp add: start_def linux_host_def)
  show ?thesis
    unfolding m by simp
qed

section \<open>The working directory\<close>

lemma autotools_run_cwd:
  "(fst (autotools_run h v p m old n) = Inr () \<longrightarrow> fst (snd (autotools_run h v p m old n)) = old) \<and>
   (\<forall>rc. fst (autotools_run h v p m old n) = Inl (CalledProcessError rc) \<longrightarrow>
      fst (snd (autotools_run h v p m old n)) = get_unpacked_path h v (tmpdir_name h n))"
  by (simp add: autotools_run_def Let_def)

lemma build_None_cwd:
  assumes "\<not> is_win (platform h)"
  shows "fst (build_hdf5 h v None g u m s) \<noteq> Inr () \<and>
     cwd (snd (build_hdf5 h v None g u m s)) = get_unpacked_path h v (tmpdir_name h (tmp_count s))"
  using assms
  by (simp add: build_hdf5_def prog_defs get_autotools_cmds_def Let_def)

text \<open>
  C8, as the spec states it: the working directory is back at its old value when the
  build step ends, also when it ends in a fatal abort. The call \<^verbatim>\<open>chdir(old_dir)\<close> is
  the last statement of the normal path and is not in a \<^verbatim>\<open>finally\<close> clause: when
  \<^verbatim>\<open>chmod\<close> fails, the build step ends with the process still in the unpacked source
  directory.
\<close>

theorem build_cwd_counterexample:
  "fst (build_hdf5 linux_host_chmod_fails ''1.8.17'' (Some ''/tmp/out'') None False False
          (start ''/home/ci'')) = Inl (CalledProcessError 1) \<and>
   cwd (start ''/home/ci'') = ''/home/ci'' \<and>
   cwd (snd (build_hdf5 linux_host_chmod_fails ''1.8.17'' (Some ''/tmp/out'') None False False
          (start ''/home/ci''))) = ''/tmp/tmpa/hdf5-1.8.17''"
proof -
  have nw: "\<not> is_win (platform linux_host_chmod_fails)"
    by (simp add: linux_host_chmod_fails_def linux_eval)
  show ?thesis
    unfolding build_autotools_outcome [OF nw]
    by (simp add: autotools_run_def Let_def start_def linux_host_chmod_fails_def linux_eval
        get_unpacked_path_def REL_PATH_TO_UNPACKED_DIR_def)
qed

text \<open>
  C8, amended: when the build step returns normally, the working directory is what it
  was before the build step; when the build step is aborted by a failed subprocess, the
  working directory is not restored: it is the unpacked source directory.
\<close>

theorem build_cwd:
  "(fst (build_hdf5 h version install_path cmake_generator use_prefix with_mpi s) = Inr () \<longrightarrow>
      cwd (snd (build_hdf5 h version install_path cmake_generator use_prefix with_mpi s)) = cwd s) \<and>
   (\<forall>rc. fst (build_hdf5 h version install_path cmake_generator use_prefix with_mpi s) =
            Inl (CalledProcessError rc) \<longrightarrow>
      cwd (snd (build_hdf5 h version install_path cmake_generator use_prefix with_mpi s)) =
        get_unpacked_path h version (tmpdir_name h (tmp_count s)))"
proof (cases "is_win (platform h)")
  case True
  then show ?thesis by (simp add: build_win)
next
  case nw: False
  show ?thesis
  proof (cases install_path)
    case None
    with build_None_cwd [OF nw] show ?thesis by simp
  next
    case (Some p)
    obtain r c evs where a: "autotools_run h version p with_mpi (cwd s) (tmp_count s) = (r, c, evs)"
      by (cases "autotools_run h version p with_mpi (cwd s) (tmp_count s)") auto
    from autotools_run_cwd [of h version p with_mpi "cwd s" "tmp_count s"] a
    show ?thesis
      unfolding Some build_autotools_outcome [OF nw] by simp
  qed
qed


theorem build_cwd_witness:
  "fst (build_hdf5 linux_host ''1.8.17'' (Some ''/tmp/out'') None False False
          (start ''/home/ci'')) = Inr () \<and>
   cwd (snd (build_hdf5 linux_host ''1.8.17'' (Some ''/tmp/out'') None False False
          (start ''/home/ci''))) = cwd (start ''/home/ci'') \<and>
   fst (build_hdf5 linux_host_make_install_fails ''1.8.17'' (Some ''/tmp/out'') None False False
          (start ''/home/ci'')) = Inl (CalledProcessError 2) \<and>
   cwd (snd (build_hdf5 linux_host_make_install_fails ''1.8.17'' (Some ''/tmp/out'') None False
          False (start ''/home/ci''))) =
     get_unpacked_path linux_host_make_install_fails ''1.8.17'' ''/tmp/tmpa''"
proof -
  have nw: "\<not> is_win (platform linux_host)"
    "\<not> is_win (platform linux_host_make_install_fails)"
    by (simp_all add: linux_host_make_install_fails_def linux_eval)
  have ok: "fst (build_hdf5 linux_host ''1.8.17'' (Some ''/tmp/out'') None False False
          (start ''/home/ci'')) = Inr ()"
    unfolding build_autotools_outcome [OF nw(1)]
    by (simp add: autotools_run_def Let_def linux_host_def)
  have bad: "fst (build_hdf5 linux_host_make_install_fails ''1.8.17'' (Some ''/tmp/out'') None
          False False (start ''/home/ci'')) = Inl (CalledProcessError 2)"
    unfolding build_autotools_outcome [OF nw(2)]
    by (simp add: autotools_run_def Let_def linux_host_make_install_fails_def linux_host_def)
  have t: "tmpdir_name linux_host_make_install_fails (tmp_count (start ''/home/ci'')) = ''/tmp/tmpa''"
    by (simp add: linux_host_make_install_fails_def linux_host_def start_def)
  show ?thesis
    using ok bad t
      build_cwd [of linux_host "''1.8.17''" "Some ''/tmp/out''" None False False "start ''/home/ci''"]
      build_cwd [of linux_host_make_install_fails "''1.8.17''" "Some ''/tmp/out''" None False False
        "start ''/home/ci''"]
    by simp
qed


end
